theory Spec2Isabelle
  imports Main
begin

section \<open>JavaScript values and property reads on object literals\<close>

text \<open>
  The three configuration tables of the worker are JavaScript object literals whose
  values are strings. Reading \<^verbatim>\<open>obj[key]\<close> on such an object first looks for an own
  property and then walks the prototype chain, which for an object literal is
  \<^verbatim>\<open>Object.prototype\<close>. A read therefore has three possible results: a string
  stored in the table, a built-in function or object inherited from the prototype
  (identified here by the property name under which it was found), or
  \<^verbatim>\<open>undefined\<close>.
\<close>

datatype jsval = Undefined | Str string | Inherited string

text \<open>The property names every object literal inherits from \<^verbatim>\<open>Object.prototype\<close>.\<close>

definition Object_prototype_keys :: "string list" where
  "Object_prototype_keys =
     [''constructor'', ''__defineGetter__'', ''__defineSetter__'', ''hasOwnProperty'',
      ''__lookupGetter__'', ''__lookupSetter__'', ''isPrototypeOf'',
      ''propertyIsEnumerable'', ''toString'', ''valueOf'', ''__proto__'',
      ''toLocaleString'']"

text \<open>
  Truthiness as tested by \<^verbatim>\<open>if\<close>, \<^verbatim>\<open>!\<close>, \<^verbatim>\<open>&&\<close> and \<^verbatim>\<open>||\<close>:
  \<^verbatim>\<open>undefined\<close> and the empty string are falsy, functions and objects are truthy.
\<close>

fun truthy :: "jsval \<Rightarrow> bool" where
  "truthy Undefined = False"
| "truthy (Str s) = (s \<noteq> [])"
| "truthy (Inherited k) = True"

text \<open>
  String conversion, as applied to a property key and inside a template literal. An
  inherited built-in function prints as its native-code source text under its own
  name, which is the property name except for \<^verbatim>\<open>constructor\<close>, whose value is the
  function \<^verbatim>\<open>Object\<close>; the inherited \<^verbatim>\<open>__proto__\<close> accessor yields the prototype
  object, which prints as \<^verbatim>\<open>[object Object]\<close>.
\<close>

fun ToString :: "jsval \<Rightarrow> string" where
  "ToString Undefined = ''undefined''"
| "ToString (Str s) = s"
| "ToString (Inherited k) =
     (if k = ''__proto__'' then ''[object Object]''
      else if k = ''constructor'' then ''function Object() { [native code] }''
      else ''function '' @ k @ ''() { [native code] }'')"

type_synonym js_object = "(string \<times> string) list"

text \<open>\<^verbatim>\<open>obj[k]\<close> for a string key: own property first, then the prototype.\<close>

definition js_get :: "js_object \<Rightarrow> string \<Rightarrow> jsval" where
  "js_get obj k =
     (case map_of obj k of
        Some v \<Rightarrow> Str v
      | None \<Rightarrow> if k \<in> set Object_prototype_keys then Inherited k else Undefined)"

text \<open>\<^verbatim>\<open>a && b\<close> and \<^verbatim>\<open>a || b\<close> on values whose evaluation has no effect.\<close>

definition js_and :: "jsval \<Rightarrow> jsval \<Rightarrow> jsval" where
  "js_and a b = (if truthy a then b else a)"

definition js_or :: "jsval \<Rightarrow> jsval \<Rightarrow> jsval" where
  "js_or a b = (if truthy a then a else b)"

text \<open>An optional string field of an object: absent reads as \<^verbatim>\<open>undefined\<close>.\<close>

fun field :: "string option \<Rightarrow> jsval" where
  "field None = Undefined"
| "field (Some s) = Str s"

text \<open>\<^verbatim>\<open>s.split('.')[0]\<close>: the part of \<open>s\<close> before its first dot.\<close>

definition split_first :: "string \<Rightarrow> string" where
  "split_first s = takeWhile (\<lambda>c. c \<noteq> CHR ''.'') s"

section \<open>Configuration tables\<close>

definition RTMP_SERVERS :: js_object where
  "RTMP_SERVERS =
     [(''europe'', ''eu.streammy.io''),
      (''americas'', ''eu.streammy.io''),
      (''asia'', ''eu.streammy.io''),
      (''default'', ''eu.streammy.io'')]"

definition CONTINENT_TO_REGION :: js_object where
  "CONTINENT_TO_REGION =
     [(''EU'', ''europe''),
      (''NA'', ''americas''),
      (''SA'', ''americas''),
      (''AS'', ''asia''),
      (''OC'', ''asia''),
      (''AF'', ''europe''),
      (''AN'', ''europe'')]"

definition COUNTRY_OVERRIDES :: js_object where
  "COUNTRY_OVERRIDES =
     [(''RU'', ''europe''),
      (''TR'', ''europe''),
      (''EG'', ''europe''),
      (''AU'', ''asia''),
      (''NZ'', ''asia'')]"

section \<open>Requests, responses and the platform\<close>

text \<open>
  The geolocation descriptor \<^verbatim>\<open>request.cf\<close>: the worker reads the fields
  \<^verbatim>\<open>country\<close>, \<^verbatim>\<open>continent\<close> and \<^verbatim>\<open>region\<close>, each an optional string.
\<close>

record cf_properties =
  country :: "string option"
  continent :: "string option"
  region :: "string option"

text \<open>
  A request: its URL string, its method (\<^verbatim>\<open>request.method\<close>), its header lookup
  (\<^verbatim>\<open>request.headers.get\<close>, \<open>None\<close> for \<^verbatim>\<open>null\<close>) and the optional descriptor.
\<close>

record request =
  url :: string
  request_method :: string
  headers_get :: "string \<Rightarrow> string option"
  cf :: "cf_properties option"

text \<open>The three components of a parsed URL that the handler reads.\<close>

record URL =
  hostname :: string
  pathname :: string
  search :: string

text \<open>A response: status, body (\<open>None\<close> for a \<^verbatim>\<open>null\<close> body) and headers in order.\<close>

record response =
  status :: nat
  body :: "string option"
  headers :: "(string \<times> string) list"

text \<open>A thrown error value: its name and its message.\<close>

datatype js_error = Error (err_name: string) (message: string)

abbreviation TypeError :: "string \<Rightarrow> js_error" where
  "TypeError m \<equiv> Error ''TypeError'' m"

text \<open>
  What the hosting runtime supplies: the \<^verbatim>\<open>URL\<close> constructor, which throws on a
  string that is not a URL; the global \<^verbatim>\<open>fetch\<close>, whose promise may reject; the
  error, if any, with which the \<^verbatim>\<open>Response\<close> constructor refuses a header value;
  the text of \<^verbatim>\<open>new Date().toISOString()\<close>; and the two readings of
  \<^verbatim>\<open>Date.now()\<close> taken before and after the request is handled.
\<close>

record platform =
  new_URL :: "string \<Rightarrow> js_error + URL"
  global_fetch :: "request \<Rightarrow> js_error + response"
  invalid_header_value :: "string \<Rightarrow> js_error option"
  Date_toISOString :: string
  Date_now_start :: int
  Date_now_end :: int

text \<open>
  \<^verbatim>\<open>new Response(body, {status, headers})\<close>. The constructor copies the headers in
  order. Each value is first normalised, which removes its leading and trailing HTTP
  whitespace (tab, line feed, carriage return, space), and then validated; the
  constructor throws at the first value it refuses, and otherwise the response holds
  the status, the body and the headers with their normalised values. The header names
  and the two header values that are literals in the source (\<^verbatim>\<open>no-cache\<close>,
  \<^verbatim>\<open>text/plain\<close>) are valid in every runtime; whether any other normalised value is
  refused is left to the platform.
\<close>

definition HTTP_whitespace :: "char \<Rightarrow> bool" where
  "HTTP_whitespace c = (c = CHR 0x09 \<or> c = CHR 0x0A \<or> c = CHR 0x0D \<or> c = CHR 0x20)"

definition normalize_header_value :: "string \<Rightarrow> string" where
  "normalize_header_value v =
     rev (dropWhile HTTP_whitespace (rev (dropWhile HTTP_whitespace v)))"

definition header_error :: "platform \<Rightarrow> string \<Rightarrow> js_error option" where
  "header_error env v =
     (if v = ''no-cache'' \<or> v = ''text/plain'' then None else invalid_header_value env v)"

fun check_headers :: "platform \<Rightarrow> (string \<times> string) list \<Rightarrow> js_error option" where
  "check_headers env [] = None"
| "check_headers env ((n, v) # hs) =
     (case header_error env (normalize_header_value v) of
        Some e \<Rightarrow> Some e
      | None \<Rightarrow> check_headers env hs)"

definition new_Response ::
  "platform \<Rightarrow> string option \<Rightarrow> nat \<Rightarrow> (string \<times> string) list \<Rightarrow> js_error + response" where
  "new_Response env b st hs =
     (case check_headers env hs of
        Some e \<Rightarrow> Inl e
      | None \<Rightarrow>
          Inr \<lparr> status = st, body = b,
                headers = map (\<lambda>(n, v). (n, normalize_header_value v)) hs \<rparr>)"

section \<open>The routing decision\<close>

text \<open>
  \<^verbatim>\<open>determineClosestServer(request)\<close>, identical in both versions of the worker.
  Its result is whatever the last property read yields, so it is a \<open>jsval\<close>.
\<close>

definition determineClosestServer :: "request \<Rightarrow> jsval" where
  "determineClosestServer request =
     (case cf request of
        None \<Rightarrow> js_get RTMP_SERVERS ''default''
      | Some g \<Rightarrow>
          if truthy (js_and (field (country g))
                            (js_get COUNTRY_OVERRIDES (ToString (field (country g)))))
          then
            (let region = js_get COUNTRY_OVERRIDES (ToString (field (country g)))
             in js_get RTMP_SERVERS (ToString region))
          else if truthy (js_and (field (continent g))
                                 (js_get CONTINENT_TO_REGION (ToString (field (continent g)))))
          then
            (let region = js_get CONTINENT_TO_REGION (ToString (field (continent g)))
             in js_get RTMP_SERVERS (ToString region))
          else js_get RTMP_SERVERS ''default'')"

section \<open>The handler with logging and timing\<close>

text \<open>
  The object \<^verbatim>\<open>logData\<close> that the handler builds and passes to the console. The two
  last fields are assigned only on the redirect path.
\<close>

record logData =
  log_timestamp :: string
  log_url :: string
  log_hostname :: string
  log_clientIP :: string
  log_userAgent :: string
  log_country :: string
  log_continent :: string
  log_region :: string
  log_selectedServer :: "string option"
  log_serverRegion :: "string option"

text \<open>
  One constructor per console call of the worker, carrying the values interpolated into
  the message and the object logged with it:
  \<^item> \<open>NON_TARGET hostname logData\<close> for \<^verbatim>\<open>[NON-TARGET] Request for ${hostname}\<close>;
  \<^item> \<open>GEO_ROUTING closestServer logData\<close> for \<^verbatim>\<open>[GEO-ROUTING] Redirecting to ${closestServer}\<close>;
  \<^item> \<open>PERFORMANCE responseTime\<close> for \<^verbatim>\<open>[PERFORMANCE] Request processed in ${responseTime}ms\<close>;
  \<^item> \<open>ERROR error url method\<close> for \<^verbatim>\<open>console.error\<close> with the error (its message and
    stack), the request URL and the method.
\<close>

datatype log_entry =
    NON_TARGET string logData
  | GEO_ROUTING string logData
  | PERFORMANCE int
  | ERROR js_error string string

text \<open>\<^verbatim>\<open>x || 'unknown'\<close> for an optional string \<open>x\<close>.\<close>

definition or_unknown :: "string option \<Rightarrow> string" where
  "or_unknown x = ToString (js_or (field x) (Str ''unknown''))"

text \<open>\<^verbatim>\<open>request.cf?.f\<close>: \<^verbatim>\<open>undefined\<close> when the descriptor is absent.\<close>

definition cf_field :: "(cf_properties \<Rightarrow> string option) \<Rightarrow> request \<Rightarrow> string option" where
  "cf_field f request = (case cf request of None \<Rightarrow> None | Some g \<Rightarrow> f g)"

text \<open>
  Calling \<^verbatim>\<open>closestServer.split('.')\<close> and taking element 0. On \<^verbatim>\<open>undefined\<close> the
  property read throws; an inherited function or object has no \<^verbatim>\<open>split\<close>, and the
  call throws.
\<close>

fun split_dot_0 :: "jsval \<Rightarrow> js_error + string" where
  "split_dot_0 (Str s) = Inr (split_first s)"
| "split_dot_0 Undefined =
     Inl (TypeError ''Cannot read properties of undefined (reading 'split')'')"
| "split_dot_0 (Inherited k) = Inl (TypeError ''closestServer.split is not a function'')"

text \<open>
  \<^verbatim>\<open>handleRequest\<close> of the version with logging. The result pairs the outcome of the
  async function (\<open>Inl\<close>: it threw, or the promise it returned rejected) with the console
  output in order. The routing decision is logged before the response is constructed.
\<close>

definition handleRequest :: "platform \<Rightarrow> request \<Rightarrow> (js_error + response) \<times> log_entry list" where
  "handleRequest env request =
     (case new_URL env (url request) of
        Inl e \<Rightarrow> (Inl e, [])
      | Inr u \<Rightarrow>
          (let logData =
                 \<lparr> log_timestamp = Date_toISOString env,
                   log_url = url request,
                   log_hostname = hostname u,
                   log_clientIP = or_unknown (headers_get request ''cf-connecting-ip''),
                   log_userAgent = or_unknown (headers_get request ''user-agent''),
                   log_country = or_unknown (cf_field country request),
                   log_continent = or_unknown (cf_field continent request),
                   log_region = or_unknown (cf_field region request),
                   log_selectedServer = None,
                   log_serverRegion = None \<rparr>
           in if hostname u \<noteq> ''live.streammy.io''
              then (global_fetch env request, [NON_TARGET (hostname u) logData])
              else
                (let closestServer = determineClosestServer request
                 in case split_dot_0 closestServer of
                      Inl e \<Rightarrow> (Inl e, [])
                    | Inr serverRegion \<Rightarrow>
                        (let logData' = logData
                               \<lparr> log_selectedServer := Some (ToString closestServer),
                                 log_serverRegion := Some serverRegion \<rparr>;
                             targetUrl = ''https://'' @ ToString closestServer
                                           @ pathname u @ search u
                         in (new_Response env None 302
                               [(''Location'', targetUrl),
                                (''Cache-Control'', ''no-cache''),
                                (''X-Streammy-Region'', serverRegion),
                                (''X-Streammy-Country'', log_country logData'),
                                (''X-Streammy-Continent'', log_continent logData')],
                             [GEO_ROUTING (ToString closestServer) logData'])))))"

text \<open>
  The exported \<^verbatim>\<open>fetch\<close> of the version with logging: it awaits \<^verbatim>\<open>handleRequest\<close>
  inside \<^verbatim>\<open>try\<close>, logs the elapsed time and returns the response, or logs the error
  and returns a response constructed in the \<^verbatim>\<open>catch\<close> block.
\<close>

definition export_fetch :: "platform \<Rightarrow> request \<Rightarrow> (js_error + response) \<times> log_entry list" where
  "export_fetch env request =
     (case handleRequest env request of
        (Inr response, logs) \<Rightarrow>
          (Inr response, logs @ [PERFORMANCE (Date_now_end env - Date_now_start env)])
      | (Inl error, logs) \<Rightarrow>
          (new_Response env (Some (''Internal Server Error: '' @ message error)) 500
             [(''Content-Type'', ''text/plain'')],
           logs @ [ERROR error (url request) (request_method request)]))"

text \<open>The response that the \<^verbatim>\<open>catch\<close> block constructs for an error.\<close>

definition error_response :: "js_error \<Rightarrow> response" where
  "error_response error =
     \<lparr> status = 500,
       body = Some (''Internal Server Error: '' @ message error),
       headers = [(''Content-Type'', ''text/plain'')] \<rparr>"

section \<open>The handler without logging\<close>

text \<open>
  \<^verbatim>\<open>handleRequest\<close> of \<^verbatim>\<open>src/index.js\<close>. The target URL is built first, with the
  string conversion of whatever \<^verbatim>\<open>determineClosestServer\<close> returned; the split is
  evaluated while the headers are built.
\<close>

definition handleRequest_plain :: "platform \<Rightarrow> request \<Rightarrow> js_error + response" where
  "handleRequest_plain env request =
     (case new_URL env (url request) of
        Inl e \<Rightarrow> Inl e
      | Inr u \<Rightarrow>
          if hostname u \<noteq> ''live.streammy.io''
          then global_fetch env request
          else
            (let closestServer = determineClosestServer request;
                 targetUrl = ''https://'' @ ToString closestServer @ pathname u @ search u
             in case split_dot_0 closestServer of
                  Inl e \<Rightarrow> Inl e
                | Inr serverRegion \<Rightarrow>
                    new_Response env None 302
                      [(''Location'', targetUrl),
                       (''Cache-Control'', ''no-cache''),
                       (''X-Streammy-Region'', serverRegion)]))"

text \<open>The exported \<^verbatim>\<open>fetch\<close> of \<^verbatim>\<open>src/index.js\<close> returns the handler's promise as it is.\<close>

definition export_fetch_plain :: "platform \<Rightarrow> request \<Rightarrow> js_error + response" where
  "export_fetch_plain env request = handleRequest_plain env request"

section \<open>Comparing the two versions\<close>

text \<open>
  The relation "the outcome of the version with logging extends the outcome of the
  version without, differing only in added diagnostics": on a response, same status and
  body and every header of the plain response; on an error, the same error.
\<close>

definition extends_outcome :: "js_error + response \<Rightarrow> js_error + response \<Rightarrow> bool" where
  "extends_outcome logging plain =
     (case plain of
        Inr p \<Rightarrow>
          (case logging of
             Inr l \<Rightarrow> status l = status p \<and> body l = body p
                        \<and> set (headers p) \<subseteq> set (headers l)
           | Inl e \<Rightarrow> False)
      | Inl e \<Rightarrow> logging = Inl e)"

section \<open>A sample platform and sample requests\<close>

text \<open>
  A runtime that parses two URL strings, rejects every other string as the
  \<^verbatim>\<open>URL\<close> constructor does, refuses normalised header values that still contain a
  NUL, a line feed or a carriage return, and whose upstream answers every forwarded
  request with the same page.
\<close>

definition upstream_page :: response where
  "upstream_page =
     \<lparr> status = 200, body = Some ''upstream'', headers = [(''Content-Type'', ''text/html'')] \<rparr>"

definition sample_platform :: platform where
  "sample_platform =
     \<lparr> new_URL =
         (\<lambda>s. if s = ''https://live.streammy.io/stream/abc?token=123''
              then Inr \<lparr> hostname = ''live.streammy.io'', pathname = ''/stream/abc'',
                         search = ''?token=123'' \<rparr>
              else if s = ''https://other.streammy.io/anything''
              then Inr \<lparr> hostname = ''other.streammy.io'', pathname = ''/anything'',
                         search = [] \<rparr>
              else Inl (TypeError ''Invalid URL'')),
       global_fetch = (\<lambda>r. Inr upstream_page),
       invalid_header_value =
         (\<lambda>v. if CHR 0x00 \<in> set v \<or> CHR 0x0A \<in> set v \<or> CHR 0x0D \<in> set v
              then Some (TypeError ''Invalid header value.'') else None),
       Date_toISOString = ''2025-01-01T00:00:00.000Z'',
       Date_now_start = 1735689600000,
       Date_now_end = 1735689600003 \<rparr>"

definition sample_request :: "string \<Rightarrow> cf_properties option \<Rightarrow> request" where
  "sample_request u g =
     \<lparr> url = u, request_method = ''GET'', headers_get = (\<lambda>h. None), cf = g \<rparr>"

definition geo :: "string option \<Rightarrow> string option \<Rightarrow> cf_properties" where
  "geo c k = \<lparr> country = c, continent = k, region = None \<rparr>"

text \<open>The same runtime with an upstream that cannot be reached: every forward rejects.\<close>

definition offline_platform :: platform where
  "offline_platform =
     sample_platform \<lparr> global_fetch := (\<lambda>r. Inl (TypeError ''fetch failed'')) \<rparr>"

section \<open>Facts about property reads on the three tables\<close>

lemma js_get_own: "map_of obj k = Some v \<Longrightarrow> js_get obj k = Str v"
  by (simp add: js_get_def)

lemma js_get_absent:
  "map_of obj k = None \<Longrightarrow> k \<notin> set Object_prototype_keys \<Longrightarrow> js_get obj k = Undefined"
  by (simp add: js_get_def)

lemma js_get_inherited:
  "map_of obj k = None \<Longrightarrow> k \<in> set Object_prototype_keys \<Longrightarrow> js_get obj k = Inherited k"
  by (simp add: js_get_def)

lemma COUNTRY_OVERRIDES_cases:
  assumes "map_of COUNTRY_OVERRIDES c = Some r"
  shows "(c = ''RU'' \<and> r = ''europe'') \<or> (c = ''TR'' \<and> r = ''europe'')
       \<or> (c = ''EG'' \<and> r = ''europe'') \<or> (c = ''AU'' \<and> r = ''asia'')
       \<or> (c = ''NZ'' \<and> r = ''asia'')"
  using assms by (simp add: COUNTRY_OVERRIDES_def split: if_splits)

lemma CONTINENT_TO_REGION_cases:
  assumes "map_of CONTINENT_TO_REGION k = Some r"
  shows "(k = ''EU'' \<and> r = ''europe'') \<or> (k = ''NA'' \<and> r = ''americas'')
       \<or> (k = ''SA'' \<and> r = ''americas'') \<or> (k = ''AS'' \<and> r = ''asia'')
       \<or> (k = ''OC'' \<and> r = ''asia'') \<or> (k = ''AF'' \<and> r = ''europe'')
       \<or> (k = ''AN'' \<and> r = ''europe'')"
  using assms by (simp add: CONTINENT_TO_REGION_def split: if_splits)

lemma region_resolves:
  assumes "r = ''europe'' \<or> r = ''americas'' \<or> r = ''asia'' \<or> r = ''default''"
  shows "map_of RTMP_SERVERS r = Some ''eu.streammy.io''"
    and "js_get RTMP_SERVERS r = Str ''eu.streammy.io''"
  using assms by (auto simp: js_get_def RTMP_SERVERS_def)

lemma override_region_resolves:
  assumes "map_of COUNTRY_OVERRIDES c = Some r"
  shows "c \<noteq> []" and "r \<noteq> []" and "js_get RTMP_SERVERS r = Str ''eu.streammy.io''"
    and "map_of RTMP_SERVERS r = Some ''eu.streammy.io''"
  using COUNTRY_OVERRIDES_cases [OF assms] by (auto simp: region_resolves)

lemma continent_region_resolves:
  assumes "map_of CONTINENT_TO_REGION k = Some r"
  shows "k \<noteq> []" and "r \<noteq> []" and "js_get RTMP_SERVERS r = Str ''eu.streammy.io''"
    and "map_of RTMP_SERVERS r = Some ''eu.streammy.io''"
  using CONTINENT_TO_REGION_cases [OF assms] by (auto simp: region_resolves)

text \<open>
  The string conversion of an inherited function or object is never a property name of
  \<open>RTMP_SERVERS\<close>, own or inherited, so reading \<open>RTMP_SERVERS\<close> at it gives
  \<^verbatim>\<open>undefined\<close>.
\<close>

lemma servers_at_inherited: "js_get RTMP_SERVERS (ToString (Inherited k)) = Undefined"
  by (simp add: js_get_def RTMP_SERVERS_def Object_prototype_keys_def)

section \<open>Properties of the routing decision\<close>

text \<open>
  C1. Whenever the country of the descriptor is present and is a key of
  \<open>COUNTRY_OVERRIDES\<close> with region \<open>r\<close>, the result is the hostname stored under
  \<open>r\<close> in \<open>RTMP_SERVERS\<close>, whatever the continent and the other fields are.
\<close>

theorem country_override_wins:
  assumes "cf request = Some g"
    and "country g = Some c"
    and "map_of COUNTRY_OVERRIDES c = Some r"
  shows "\<exists>h. map_of RTMP_SERVERS r = Some h \<and> determineClosestServer request = Str h"
  using assms override_region_resolves [OF assms(3)] js_get_own [OF assms(3)]
  by (simp add: determineClosestServer_def js_and_def)

theorem country_override_wins_witness:
  "cf (sample_request [] (Some (geo (Some ''TR'') (Some ''AS'')))) = Some (geo (Some ''TR'') (Some ''AS''))
   \<and> country (geo (Some ''TR'') (Some ''AS'')) = Some ''TR''
   \<and> map_of COUNTRY_OVERRIDES ''TR'' = Some ''europe''
   \<and> map_of CONTINENT_TO_REGION ''AS'' = Some ''asia''
   \<and> (\<exists>h. map_of RTMP_SERVERS ''europe'' = Some h
          \<and> determineClosestServer (sample_request [] (Some (geo (Some ''TR'') (Some ''AS'')))) = Str h)"
proof -
  have a: "cf (sample_request [] (Some (geo (Some ''TR'') (Some ''AS'')))) = Some (geo (Some ''TR'') (Some ''AS''))"
    by (simp add: sample_request_def)
  have b: "country (geo (Some ''TR'') (Some ''AS'')) = Some ''TR''"
    by (simp add: geo_def)
  have c: "map_of COUNTRY_OVERRIDES ''TR'' = Some ''europe''"
    by (simp add: COUNTRY_OVERRIDES_def)
  have d: "map_of CONTINENT_TO_REGION ''AS'' = Some ''asia''"
    by (simp add: CONTINENT_TO_REGION_def)
  from country_override_wins [OF a b c] a b c d show ?thesis
    by blast
qed

text \<open>
  What the routing decision can return at all: a read of \<open>RTMP_SERVERS\<close> at a region
  taken from one of the two lookup tables, at the string conversion of an inherited
  built-in, or at \<^verbatim>\<open>default\<close>.
\<close>

lemma servers_at_lookup:
  assumes "obj = COUNTRY_OVERRIDES \<or> obj = CONTINENT_TO_REGION"
  shows "js_get RTMP_SERVERS (ToString (js_get obj k)) = Str ''eu.streammy.io''
       \<or> js_get RTMP_SERVERS (ToString (js_get obj k)) = Undefined"
proof (cases "map_of obj k")
  case None
  have u: "js_get RTMP_SERVERS ''undefined'' = Undefined"
    by (simp add: js_get_def RTMP_SERVERS_def Object_prototype_keys_def)
  show ?thesis
  proof (cases "k \<in> set Object_prototype_keys")
    case True
    with None have "js_get obj k = Inherited k"
      by (rule js_get_inherited)
    then show ?thesis
      by (simp add: servers_at_inherited del: ToString.simps)
  next
    case False
    with None have "js_get obj k = Undefined"
      by (rule js_get_absent)
    then show ?thesis
      by (simp add: u)
  qed
next
  case (Some r)
  with assms have "js_get RTMP_SERVERS r = Str ''eu.streammy.io''"
    by (auto dest: override_region_resolves(3) continent_region_resolves(3))
  with Some show ?thesis
    by (simp add: js_get_own)
qed

lemma determineClosestServer_range:
  "determineClosestServer request = Str ''eu.streammy.io''
   \<or> determineClosestServer request = Undefined"
proof (cases "cf request")
  case None
  then show ?thesis
    by (simp add: determineClosestServer_def region_resolves)
next
  case (Some g)
  have a: "js_get RTMP_SERVERS (ToString (js_get COUNTRY_OVERRIDES k)) = Str ''eu.streammy.io''
         \<or> js_get RTMP_SERVERS (ToString (js_get COUNTRY_OVERRIDES k)) = Undefined" for k
    by (rule servers_at_lookup) simp
  have b: "js_get RTMP_SERVERS (ToString (js_get CONTINENT_TO_REGION k)) = Str ''eu.streammy.io''
         \<or> js_get RTMP_SERVERS (ToString (js_get CONTINENT_TO_REGION k)) = Undefined" for k
    by (rule servers_at_lookup) simp
  from Some a b show ?thesis
    by (simp add: determineClosestServer_def region_resolves)
qed

text \<open>
  On codes that are not names of inherited properties the decision follows the tables:
  with no override for the country, a continent that is a key of
  \<open>CONTINENT_TO_REGION\<close> decides.
\<close>

lemma continent_mapping_applies:
  assumes "cf request = Some g"
    and "country g = None \<or> country g = Some []
         \<or> (\<exists>c. country g = Some c \<and> map_of COUNTRY_OVERRIDES c = None
                 \<and> c \<notin> set Object_prototype_keys)"
    and "continent g = Some k"
    and "map_of CONTINENT_TO_REGION k = Some r"
  shows "\<exists>h. map_of RTMP_SERVERS r = Some h \<and> determineClosestServer request = Str h"
proof -
  from assms(2)
  have "\<not> truthy (js_and (field (country g))
                          (js_get COUNTRY_OVERRIDES (ToString (field (country g)))))"
    by (auto simp: js_and_def js_get_absent)
  with assms(1,3) continent_region_resolves [OF assms(4)] js_get_own [OF assms(4)]
  show ?thesis
    by (simp add: determineClosestServer_def js_and_def)
qed

text \<open>
  On codes that are not names of inherited properties, a descriptor with neither a
  country in \<open>COUNTRY_OVERRIDES\<close> nor a continent in \<open>CONTINENT_TO_REGION\<close> gets the
  default hostname, and so does an absent descriptor.
\<close>

lemma default_for_unlisted_codes:
  assumes "cf request = Some g"
    and "country g = None
         \<or> (\<exists>c. country g = Some c \<and> map_of COUNTRY_OVERRIDES c = None
                 \<and> c \<notin> set Object_prototype_keys)"
    and "continent g = None
         \<or> (\<exists>k. continent g = Some k \<and> map_of CONTINENT_TO_REGION k = None
                 \<and> k \<notin> set Object_prototype_keys)"
  shows "determineClosestServer request = Str ''eu.streammy.io''"
    and "determineClosestServer request = js_get RTMP_SERVERS ''default''"
proof -
  from assms(2)
  have "\<not> truthy (js_and (field (country g))
                          (js_get COUNTRY_OVERRIDES (ToString (field (country g)))))"
    by (auto simp: js_and_def js_get_absent)
  moreover from assms(3)
  have "\<not> truthy (js_and (field (continent g))
                          (js_get CONTINENT_TO_REGION (ToString (field (continent g)))))"
    by (auto simp: js_and_def js_get_absent)
  ultimately show "determineClosestServer request = js_get RTMP_SERVERS ''default''"
    using assms(1) by (simp add: determineClosestServer_def)
  then show "determineClosestServer request = Str ''eu.streammy.io''"
    by (simp add: region_resolves)
qed

lemma default_for_absent_descriptor:
  assumes "cf request = None"
  shows "determineClosestServer request = Str ''eu.streammy.io''"
    and "determineClosestServer request = js_get RTMP_SERVERS ''default''"
  using assms by (simp_all add: determineClosestServer_def region_resolves)

text \<open>
  No inherited property name has two characters, so on descriptors whose codes, where
  present, are two-letter codes the routing decision is always the hostname string.
\<close>

lemma two_letter_code_not_inherited: "length c = 2 \<Longrightarrow> c \<notin> set Object_prototype_keys"
  by (auto simp: Object_prototype_keys_def)

lemma two_letter_read:
  assumes "obj = COUNTRY_OVERRIDES \<or> obj = CONTINENT_TO_REGION"
    and "length c = 2"
  shows "js_get obj c = Undefined
       \<or> (\<exists>r. js_get obj c = Str r \<and> r \<noteq> []
              \<and> js_get RTMP_SERVERS r = Str ''eu.streammy.io'')"
proof (cases "map_of obj c")
  case None
  with two_letter_code_not_inherited [OF assms(2)] show ?thesis
    by (simp add: js_get_absent)
next
  case (Some r)
  with assms(1) have "r \<noteq> [] \<and> js_get RTMP_SERVERS r = Str ''eu.streammy.io''"
    by (auto dest: override_region_resolves continent_region_resolves)
  with Some show ?thesis
    by (simp add: js_get_own)
qed

lemma two_letter_branch:
  assumes "obj = COUNTRY_OVERRIDES \<or> obj = CONTINENT_TO_REGION"
    and "x = None \<or> (\<exists>c. x = Some c \<and> length c = 2)"
  shows "\<not> truthy (js_and (field x) (js_get obj (ToString (field x))))
       \<or> js_get RTMP_SERVERS (ToString (js_get obj (ToString (field x))))
           = Str ''eu.streammy.io''"
proof (cases x)
  case None
  then show ?thesis
    by (simp add: js_and_def)
next
  case (Some c)
  with assms(2) have "length c = 2"
    by simp
  from two_letter_read [OF assms(1) this] Some show ?thesis
    by (auto simp: js_and_def)
qed

lemma two_letter_codes_resolve:
  assumes "cf request = Some g"
    and "country g = None \<or> (\<exists>c. country g = Some c \<and> length c = 2)"
    and "continent g = None \<or> (\<exists>k. continent g = Some k \<and> length k = 2)"
  shows "determineClosestServer request = Str ''eu.streammy.io''"
proof -
  have d: "js_get RTMP_SERVERS ''default'' = Str ''eu.streammy.io''"
    by (simp add: region_resolves)
  have c: "\<not> truthy (js_and (field (country g))
                          (js_get COUNTRY_OVERRIDES (ToString (field (country g)))))
         \<or> js_get RTMP_SERVERS (ToString (js_get COUNTRY_OVERRIDES (ToString (field (country g)))))
             = Str ''eu.streammy.io''"
    by (rule two_letter_branch [OF _ assms(2)]) simp
  have k: "\<not> truthy (js_and (field (continent g))
                          (js_get CONTINENT_TO_REGION (ToString (field (continent g)))))
         \<or> js_get RTMP_SERVERS (ToString (js_get CONTINENT_TO_REGION (ToString (field (continent g)))))
             = Str ''eu.streammy.io''"
    by (rule two_letter_branch [OF _ assms(3)]) simp
  from assms(1) c k d show ?thesis
    by (auto simp: determineClosestServer_def)
qed

text \<open>
  C2. The claim fails where the country is the name of a property that
  \<open>COUNTRY_OVERRIDES\<close> inherits: \<^verbatim>\<open>constructor\<close> is not a key of the table, the
  continent \<^verbatim>\<open>EU\<close> is a key of \<open>CONTINENT_TO_REGION\<close> with region \<^verbatim>\<open>europe\<close>,
  and the result is \<^verbatim>\<open>undefined\<close> instead of the hostname stored under
  \<^verbatim>\<open>europe\<close>.
\<close>

theorem continent_skipped_for_inherited_country:
  "map_of COUNTRY_OVERRIDES ''constructor'' = None
   \<and> map_of CONTINENT_TO_REGION ''EU'' = Some ''europe''
   \<and> js_get RTMP_SERVERS ''europe'' = Str ''eu.streammy.io''
   \<and> determineClosestServer
        (sample_request [] (Some (geo (Some ''constructor'') (Some ''EU'')))) = Undefined"
  by (simp add: determineClosestServer_def sample_request_def geo_def js_and_def js_get_def
      COUNTRY_OVERRIDES_def CONTINENT_TO_REGION_def RTMP_SERVERS_def Object_prototype_keys_def)

text \<open>
  C3. The claim fails on codes that are names of inherited properties: with country
  \<^verbatim>\<open>hasOwnProperty\<close> and no continent, and with the unknown country \<^verbatim>\<open>ZZ\<close> and
  continent \<^verbatim>\<open>valueOf\<close>, neither code is a key of its table, and the result is
  \<^verbatim>\<open>undefined\<close>, not the default hostname.
\<close>

theorem no_default_for_inherited_names:
  "map_of COUNTRY_OVERRIDES ''hasOwnProperty'' = None
   \<and> determineClosestServer
        (sample_request [] (Some (geo (Some ''hasOwnProperty'') None))) = Undefined
   \<and> map_of COUNTRY_OVERRIDES ''ZZ'' = None
   \<and> map_of CONTINENT_TO_REGION ''valueOf'' = None
   \<and> determineClosestServer
        (sample_request [] (Some (geo (Some ''ZZ'') (Some ''valueOf'')))) = Undefined
   \<and> js_get RTMP_SERVERS ''default'' = Str ''eu.streammy.io''"
  by (simp add: determineClosestServer_def sample_request_def geo_def js_and_def js_get_def
      COUNTRY_OVERRIDES_def CONTINENT_TO_REGION_def RTMP_SERVERS_def Object_prototype_keys_def)

text \<open>
  The tables are consistent with one another: every region that occurs as a value of
  \<open>CONTINENT_TO_REGION\<close> or of \<open>COUNTRY_OVERRIDES\<close> is a key of \<open>RTMP_SERVERS\<close>, and
  so is \<^verbatim>\<open>default\<close>; reading \<open>RTMP_SERVERS\<close> at any of them yields a non-empty
  hostname string.
\<close>

lemma tables_regions_resolve:
  "set (map snd CONTINENT_TO_REGION) \<union> set (map snd COUNTRY_OVERRIDES)
     \<subseteq> set (map fst RTMP_SERVERS)
   \<and> ''default'' \<in> set (map fst RTMP_SERVERS)
   \<and> (\<forall>r \<in> set (map snd CONTINENT_TO_REGION) \<union> set (map snd COUNTRY_OVERRIDES)
              \<union> {''default''}.
         \<exists>h. h \<noteq> [] \<and> map_of RTMP_SERVERS r = Some h \<and> js_get RTMP_SERVERS r = Str h)"
  by (simp add: CONTINENT_TO_REGION_def COUNTRY_OVERRIDES_def RTMP_SERVERS_def js_get_def)

text \<open>
  C9. The table part of the claim holds: the regions of both lookup tables and
  \<^verbatim>\<open>default\<close> are keys of \<open>RTMP_SERVERS\<close>. Its conclusion fails: for the country
  \<^verbatim>\<open>toLocaleString\<close>, which is not a key of \<open>COUNTRY_OVERRIDES\<close>, resolution yields
  \<^verbatim>\<open>undefined\<close>, a missing hostname.
\<close>

theorem resolution_misses_hostname:
  "set (map snd CONTINENT_TO_REGION) \<union> set (map snd COUNTRY_OVERRIDES)
     \<subseteq> set (map fst RTMP_SERVERS)
   \<and> ''default'' \<in> set (map fst RTMP_SERVERS)
   \<and> map_of COUNTRY_OVERRIDES ''toLocaleString'' = None
   \<and> determineClosestServer
        (sample_request [] (Some (geo (Some ''toLocaleString'') None))) = Undefined"
  by (simp add: determineClosestServer_def sample_request_def geo_def js_and_def js_get_def
      COUNTRY_OVERRIDES_def CONTINENT_TO_REGION_def RTMP_SERVERS_def Object_prototype_keys_def)

text \<open>
  C10. The routing decision is not constant: for an absent descriptor it returns
  \<^verbatim>\<open>eu.streammy.io\<close>, and for the continent \<^verbatim>\<open>__proto__\<close> it returns
  \<^verbatim>\<open>undefined\<close>.
\<close>

theorem decision_not_constant:
  "determineClosestServer (sample_request [] None) = Str ''eu.streammy.io''
   \<and> determineClosestServer
        (sample_request [] (Some (geo None (Some ''__proto__'')))) = Undefined"
  by (simp add: determineClosestServer_def sample_request_def geo_def js_and_def js_get_def
      CONTINENT_TO_REGION_def RTMP_SERVERS_def Object_prototype_keys_def)

section \<open>Properties of the handlers\<close>

lemma normalize_header_value_id:
  assumes "v = [] \<or> (\<not> HTTP_whitespace (hd v) \<and> \<not> HTTP_whitespace (last v))"
  shows "normalize_header_value v = v"
proof (cases v)
  case Nil
  then show ?thesis
    by (simp add: normalize_header_value_def)
next
  case (Cons a w)
  with assms have h: "\<not> HTTP_whitespace (hd v)" and l: "\<not> HTTP_whitespace (last v)"
    by simp_all
  from Cons h have "dropWhile HTTP_whitespace v = v"
    by simp
  moreover from Cons l have "dropWhile HTTP_whitespace (rev v) = rev v"
    by (cases "rev v") (auto simp: hd_rev [symmetric])
  ultimately show ?thesis
    by (simp add: normalize_header_value_def)
qed

lemma normalize_literals:
  "normalize_header_value ''no-cache'' = ''no-cache''"
  "normalize_header_value ''text/plain'' = ''text/plain''"
  "normalize_header_value ''eu'' = ''eu''"
  "normalize_header_value ''unknown'' = ''unknown''"
  by (simp_all add: normalize_header_value_id HTTP_whitespace_def)

lemma check_headers_append:
  "check_headers env (xs @ ys) =
     (case check_headers env xs of Some e \<Rightarrow> Some e | None \<Rightarrow> check_headers env ys)"
  by (induction xs) (auto split: option.splits)

lemma catch_response:
  "new_Response env b st [(''Content-Type'', ''text/plain'')]
     = Inr \<lparr> status = st, body = b, headers = [(''Content-Type'', ''text/plain'')] \<rparr>"
  by (simp add: new_Response_def header_error_def normalize_literals)

lemma export_fetch_outcome:
  "fst (export_fetch env request) =
     (case fst (handleRequest env request) of
        Inr response \<Rightarrow> Inr response
      | Inl error \<Rightarrow> Inr (error_response error))"
  by (simp add: export_fetch_def catch_response error_response_def
      split: prod.splits sum.splits)

lemma or_unknown_cases:
  "or_unknown x = (case x of None \<Rightarrow> ''unknown'' | Some c \<Rightarrow> if c = [] then ''unknown'' else c)"
  by (simp add: or_unknown_def js_or_def split: option.splits)

text \<open>
  On a request for the target hostname, each version passes to the \<^verbatim>\<open>Response\<close>
  constructor the status 302, no body and its list of headers, provided the routing
  decision is a string; otherwise it throws before a response is constructed.
\<close>

lemma handleRequest_redirect:
  assumes "new_URL env (url request) = Inr u"
    and "hostname u = ''live.streammy.io''"
    and "determineClosestServer request = Str host"
  shows "fst (handleRequest env request) =
           new_Response env None 302
             [(''Location'', ''https://'' @ host @ pathname u @ search u),
              (''Cache-Control'', ''no-cache''),
              (''X-Streammy-Region'', split_first host),
              (''X-Streammy-Country'', or_unknown (cf_field country request)),
              (''X-Streammy-Continent'', or_unknown (cf_field continent request))]"
    and "handleRequest_plain env request =
           new_Response env None 302
             [(''Location'', ''https://'' @ host @ pathname u @ search u),
              (''Cache-Control'', ''no-cache''),
              (''X-Streammy-Region'', split_first host)]"
  using assms by (simp_all add: handleRequest_def handleRequest_plain_def)

lemma redirect_when_resolved:
  assumes "new_URL env (url request) = Inr u"
    and "hostname u = ''live.streammy.io''"
    and "determineClosestServer request = Str host"
    and "hs = [(''Location'', ''https://'' @ host @ pathname u @ search u),
               (''Cache-Control'', ''no-cache''),
               (''X-Streammy-Region'', split_first host)]"
    and "ds = [(''X-Streammy-Country'', or_unknown (cf_field country request)),
               (''X-Streammy-Continent'', or_unknown (cf_field continent request))]"
    and "check_headers env hs = None"
  shows "handleRequest_plain env request
           = Inr \<lparr> status = 302, body = None,
                   headers = map (\<lambda>(n, v). (n, normalize_header_value v)) hs \<rparr>"
    and "check_headers env ds = None \<Longrightarrow>
         fst (handleRequest env request)
           = Inr \<lparr> status = 302, body = None,
                   headers = map (\<lambda>(n, v). (n, normalize_header_value v)) (hs @ ds) \<rparr>"
proof -
  from handleRequest_redirect(2) [OF assms(1-3)] assms(4,6)
  show "handleRequest_plain env request
           = Inr \<lparr> status = 302, body = None,
                   headers = map (\<lambda>(n, v). (n, normalize_header_value v)) hs \<rparr>"
    by (simp add: new_Response_def)
  assume "check_headers env ds = None"
  with assms(6) have "check_headers env (hs @ ds) = None"
    by (simp add: check_headers_append)
  moreover from handleRequest_redirect(1) [OF assms(1-3)] assms(4,5)
  have "fst (handleRequest env request) = new_Response env None 302 (hs @ ds)"
    by simp
  ultimately
  show "fst (handleRequest env request)
           = Inr \<lparr> status = 302, body = None,
                   headers = map (\<lambda>(n, v). (n, normalize_header_value v)) (hs @ ds) \<rparr>"
    by (simp add: new_Response_def)
qed

lemma redirect_throws_when_unresolved:
  assumes "new_URL env (url request) = Inr u"
    and "hostname u = ''live.streammy.io''"
    and "determineClosestServer request = Undefined"
  shows "handleRequest env request =
           (Inl (TypeError ''Cannot read properties of undefined (reading 'split')''), [])"
    and "handleRequest_plain env request =
           Inl (TypeError ''Cannot read properties of undefined (reading 'split')'')"
  using assms by (simp_all add: handleRequest_def handleRequest_plain_def)

text \<open>
  On a request for the target hostname the routing decision, when it is a string, is
  \<^verbatim>\<open>eu.streammy.io\<close>; when it is not, no response is returned.
\<close>

lemma redirect_host:
  assumes "new_URL env (url request) = Inr u"
    and "hostname u = ''live.streammy.io''"
    and "fst (handleRequest env request) = Inr resp \<or> handleRequest_plain env request = Inr resp"
  shows "determineClosestServer request = Str ''eu.streammy.io''"
proof (rule disjE [OF determineClosestServer_range [of request]])
  assume "determineClosestServer request = Undefined"
  from redirect_throws_when_unresolved [OF assms(1,2) this] assms(3)
  show ?thesis
    by simp
qed

text \<open>
  Every redirect that either version returns points to \<^verbatim>\<open>eu.streammy.io\<close> and
  carries the region label \<^verbatim>\<open>eu\<close>.
\<close>

lemma every_redirect_targets_eu:
  assumes "new_URL env (url request) = Inr u"
    and "hostname u = ''live.streammy.io''"
    and "fst (handleRequest env request) = Inr resp \<or> handleRequest_plain env request = Inr resp"
  shows "map_of (headers resp) ''Location''
           = Some (normalize_header_value
                     (''https://eu.streammy.io'' @ pathname u @ search u))"
    and "map_of (headers resp) ''X-Streammy-Region'' = Some ''eu''"
proof -
  note h = handleRequest_redirect [OF assms(1,2) redirect_host [OF assms]]
  have "split_first ''eu.streammy.io'' = ''eu''"
    by (simp add: split_first_def)
  with h assms(3)
  have "headers resp =
          [(''Location'', normalize_header_value
                            (''https://eu.streammy.io'' @ pathname u @ search u)),
           (''Cache-Control'', ''no-cache''),
           (''X-Streammy-Region'', ''eu''),
           (''X-Streammy-Country'',
              normalize_header_value (or_unknown (cf_field country request))),
           (''X-Streammy-Continent'',
              normalize_header_value (or_unknown (cf_field continent request)))]
       \<or> headers resp =
          [(''Location'', normalize_header_value
                            (''https://eu.streammy.io'' @ pathname u @ search u)),
           (''Cache-Control'', ''no-cache''),
           (''X-Streammy-Region'', ''eu'')]"
    by (auto simp: new_Response_def normalize_literals split: option.splits)
  then show "map_of (headers resp) ''Location''
           = Some (normalize_header_value
                     (''https://eu.streammy.io'' @ pathname u @ search u))"
    and "map_of (headers resp) ''X-Streammy-Region'' = Some ''eu''"
    by auto
qed

text \<open>
  C4. The claim fails on a request for the target hostname whose country is the name of
  an inherited property: for \<^verbatim>\<open>https://live.streammy.io/stream/abc?token=123\<close> with
  country \<^verbatim>\<open>toString\<close> the routing decision is \<^verbatim>\<open>undefined\<close>, both versions of
  \<^verbatim>\<open>handleRequest\<close> throw a \<^verbatim>\<open>TypeError\<close> instead of returning the redirect, and
  the exported \<^verbatim>\<open>fetch\<close> of the version with logging answers with status 500.
\<close>

theorem redirect_throws_for_inherited_country:
  "new_URL sample_platform ''https://live.streammy.io/stream/abc?token=123''
     = Inr \<lparr> hostname = ''live.streammy.io'', pathname = ''/stream/abc'',
               search = ''?token=123'' \<rparr>
   \<and> handleRequest sample_platform
        (sample_request ''https://live.streammy.io/stream/abc?token=123''
           (Some (geo (Some ''toString'') (Some ''EU''))))
     = (Inl (TypeError ''Cannot read properties of undefined (reading 'split')''), [])
   \<and> handleRequest_plain sample_platform
        (sample_request ''https://live.streammy.io/stream/abc?token=123''
           (Some (geo (Some ''toString'') (Some ''EU''))))
     = Inl (TypeError ''Cannot read properties of undefined (reading 'split')'')
   \<and> fst (export_fetch sample_platform
            (sample_request ''https://live.streammy.io/stream/abc?token=123''
               (Some (geo (Some ''toString'') (Some ''EU'')))))
     = Inr \<lparr> status = 500,
               body = Some ''Internal Server Error: Cannot read properties of undefined (reading 'split')'',
               headers = [(''Content-Type'', ''text/plain'')] \<rparr>"
proof -
  let ?r = "sample_request ''https://live.streammy.io/stream/abc?token=123''
              (Some (geo (Some ''toString'') (Some ''EU'')))"
  let ?u = "\<lparr> hostname = ''live.streammy.io'', pathname = ''/stream/abc'',
              search = ''?token=123'' \<rparr>"
  have a: "new_URL sample_platform (url ?r) = Inr ?u"
    by (simp add: sample_platform_def sample_request_def)
  have b: "hostname ?u = ''live.streammy.io''"
    by simp
  have d: "determineClosestServer ?r = Undefined"
    by (simp add: determineClosestServer_def sample_request_def geo_def js_and_def js_get_def
        COUNTRY_OVERRIDES_def RTMP_SERVERS_def Object_prototype_keys_def)
  note t = redirect_throws_when_unresolved [OF a b d]
  from t(1) have "fst (export_fetch sample_platform ?r)
      = Inr (error_response (TypeError ''Cannot read properties of undefined (reading 'split')''))"
    by (simp add: export_fetch_outcome)
  with a t show ?thesis
    by (simp add: error_response_def sample_request_def)
qed

text \<open>
  C5. When the hostname of the request URL differs from \<^verbatim>\<open>live.streammy.io\<close>, the
  outcome of \<^verbatim>\<open>handleRequest\<close>, in both versions, is the outcome of the global
  \<^verbatim>\<open>fetch\<close> on the same request, and a response of the upstream reaches the caller of
  the exported \<^verbatim>\<open>fetch\<close> with its status, body and headers as they are.
\<close>

theorem passthrough_verbatim:
  assumes "new_URL env (url request) = Inr u"
    and "hostname u \<noteq> ''live.streammy.io''"
  shows "fst (handleRequest env request) = global_fetch env request
       \<and> handleRequest_plain env request = global_fetch env request
       \<and> export_fetch_plain env request = global_fetch env request
       \<and> (\<forall>resp. global_fetch env request = Inr resp
                  \<longrightarrow> fst (export_fetch env request) = Inr resp)"
  using assms
  by (simp add: export_fetch_outcome export_fetch_plain_def handleRequest_def
      handleRequest_plain_def)

theorem passthrough_verbatim_witness:
  "new_URL sample_platform (url (sample_request ''https://other.streammy.io/anything'' None))
     = Inr \<lparr> hostname = ''other.streammy.io'', pathname = ''/anything'', search = [] \<rparr>
   \<and> global_fetch sample_platform (sample_request ''https://other.streammy.io/anything'' None)
     = Inr upstream_page
   \<and> fst (handleRequest sample_platform
            (sample_request ''https://other.streammy.io/anything'' None)) = Inr upstream_page
   \<and> handleRequest_plain sample_platform
        (sample_request ''https://other.streammy.io/anything'' None) = Inr upstream_page
   \<and> fst (export_fetch sample_platform
            (sample_request ''https://other.streammy.io/anything'' None)) = Inr upstream_page"
proof -
  let ?r = "sample_request ''https://other.streammy.io/anything'' None"
  let ?u = "\<lparr> hostname = ''other.streammy.io'', pathname = ''/anything'', search = [] \<rparr>"
  have a: "new_URL sample_platform (url ?r) = Inr ?u"
    by (simp add: sample_platform_def sample_request_def)
  have b: "hostname ?u \<noteq> ''live.streammy.io''"
    by simp
  have c: "global_fetch sample_platform ?r = Inr upstream_page"
    by (simp add: sample_platform_def)
  from passthrough_verbatim [OF a b] a c show ?thesis
    by simp
qed

text \<open>
  C6. The exported \<^verbatim>\<open>fetch\<close> of the version with logging always returns a response.
  Whenever \<^verbatim>\<open>handleRequest\<close> throws or rejects with an error, the caller receives
  status 500 with the plain-text body \<^verbatim>\<open>Internal Server Error: \<close> followed by the
  message of the error, and the error is logged with the URL and the method of the
  request.
\<close>

theorem fetch_catches_every_error:
  "(\<exists>resp. fst (export_fetch env request) = Inr resp)
   \<and> (\<forall>e. fst (handleRequest env request) = Inl e \<longrightarrow>
          fst (export_fetch env request) =
            Inr \<lparr> status = 500,
                  body = Some (''Internal Server Error: '' @ message e),
                  headers = [(''Content-Type'', ''text/plain'')] \<rparr>
          \<and> last (snd (export_fetch env request))
              = ERROR e (url request) (request_method request))"
proof -
  have "\<exists>resp. fst (export_fetch env request) = Inr resp"
    by (simp add: export_fetch_outcome split: sum.splits)
  moreover have "fst (export_fetch env request) =
            Inr \<lparr> status = 500,
                  body = Some (''Internal Server Error: '' @ message e),
                  headers = [(''Content-Type'', ''text/plain'')] \<rparr>
          \<and> last (snd (export_fetch env request))
              = ERROR e (url request) (request_method request)"
    if "fst (handleRequest env request) = Inl e" for e
    using that
    by (cases "handleRequest env request")
       (simp add: export_fetch_def catch_response error_response_def)
  ultimately show ?thesis
    by blast
qed

theorem fetch_catches_every_error_witness:
  "fst (handleRequest sample_platform (sample_request ''not a url'' None))
     = Inl (TypeError ''Invalid URL'')
   \<and> fst (export_fetch sample_platform (sample_request ''not a url'' None))
     = Inr \<lparr> status = 500,
               body = Some ''Internal Server Error: Invalid URL'',
               headers = [(''Content-Type'', ''text/plain'')] \<rparr>
   \<and> last (snd (export_fetch sample_platform (sample_request ''not a url'' None)))
     = ERROR (TypeError ''Invalid URL'') ''not a url'' ''GET''"
proof -
  let ?r = "sample_request ''not a url'' None"
  have a: "fst (handleRequest sample_platform ?r) = Inl (TypeError ''Invalid URL'')"
    by (simp add: handleRequest_def sample_platform_def sample_request_def)
  have b: "url ?r = ''not a url''" "request_method ?r = ''GET''"
    by (simp_all add: sample_request_def)
  from fetch_catches_every_error [of sample_platform ?r] a b show ?thesis
    by simp
qed

text \<open>
  What \<^verbatim>\<open>handleRequest\<close> of the version with logging returns and logs on each of its
  two paths.
\<close>

lemma handleRequest_passthrough:
  assumes "new_URL env (url request) = Inr u"
    and "hostname u \<noteq> ''live.streammy.io''"
  shows "handleRequest env request =
           (global_fetch env request,
            [NON_TARGET (hostname u)
               \<lparr> log_timestamp = Date_toISOString env,
                 log_url = url request,
                 log_hostname = hostname u,
                 log_clientIP = or_unknown (headers_get request ''cf-connecting-ip''),
                 log_userAgent = or_unknown (headers_get request ''user-agent''),
                 log_country = or_unknown (cf_field country request),
                 log_continent = or_unknown (cf_field continent request),
                 log_region = or_unknown (cf_field region request),
                 log_selectedServer = None,
                 log_serverRegion = None \<rparr>])"
  using assms by (simp add: handleRequest_def)

lemma handleRequest_redirect_logged:
  assumes "new_URL env (url request) = Inr u"
    and "hostname u = ''live.streammy.io''"
    and "determineClosestServer request = Str host"
  shows "handleRequest env request =
           (new_Response env None 302
              ([(''Location'', ''https://'' @ host @ pathname u @ search u),
                (''Cache-Control'', ''no-cache''),
                (''X-Streammy-Region'', split_first host)]
               @ [(''X-Streammy-Country'', or_unknown (cf_field country request)),
                  (''X-Streammy-Continent'', or_unknown (cf_field continent request))]),
            [GEO_ROUTING host
               \<lparr> log_timestamp = Date_toISOString env,
                 log_url = url request,
                 log_hostname = hostname u,
                 log_clientIP = or_unknown (headers_get request ''cf-connecting-ip''),
                 log_userAgent = or_unknown (headers_get request ''user-agent''),
                 log_country = or_unknown (cf_field country request),
                 log_continent = or_unknown (cf_field continent request),
                 log_region = or_unknown (cf_field region request),
                 log_selectedServer = Some host,
                 log_serverRegion = Some (split_first host) \<rparr>])"
  using assms by (simp add: handleRequest_def)

text \<open>
  On the sample platform, a country that contains a line feed makes the two versions
  differ on the redirect path: the plain version redirects, the version with logging
  throws while constructing its response.
\<close>

lemma refused_diagnostic_header:
  "handleRequest_plain sample_platform
     (sample_request ''https://live.streammy.io/stream/abc?token=123''
        (Some (geo (Some [CHR ''F'', CHR 0x0A, CHR ''R'']) None)))
     = Inr \<lparr> status = 302, body = None,
               headers =
                 [(''Location'', ''https://eu.streammy.io/stream/abc?token=123''),
                  (''Cache-Control'', ''no-cache''),
                  (''X-Streammy-Region'', ''eu'')] \<rparr>
   \<and> fst (handleRequest sample_platform
            (sample_request ''https://live.streammy.io/stream/abc?token=123''
               (Some (geo (Some [CHR ''F'', CHR 0x0A, CHR ''R'']) None))))
     = Inl (TypeError ''Invalid header value.'')"
proof -
  let ?r = "sample_request ''https://live.streammy.io/stream/abc?token=123''
              (Some (geo (Some [CHR ''F'', CHR 0x0A, CHR ''R'']) None))"
  let ?u = "\<lparr> hostname = ''live.streammy.io'', pathname = ''/stream/abc'',
              search = ''?token=123'' \<rparr>"
  have a: "new_URL sample_platform (url ?r) = Inr ?u"
    by (simp add: sample_platform_def sample_request_def)
  have b: "hostname ?u = ''live.streammy.io''"
    by simp
  have d: "determineClosestServer ?r = Str ''eu.streammy.io''"
    by (simp add: determineClosestServer_def sample_request_def geo_def js_and_def js_get_def
        COUNTRY_OVERRIDES_def RTMP_SERVERS_def Object_prototype_keys_def)
  show ?thesis
    unfolding handleRequest_redirect [OF a b d]
    by (simp add: new_Response_def header_error_def sample_platform_def split_first_def
        or_unknown_cases cf_field_def sample_request_def geo_def
        normalize_header_value_def HTTP_whitespace_def)
qed

text \<open>
  C7, as stated, fails: a request for another hostname while the upstream cannot be
  reached makes the plain version reject with the error of the global \<^verbatim>\<open>fetch\<close>,
  while the version with logging returns a response with status 500.
\<close>

theorem versions_diverge_on_errors:
  "export_fetch_plain offline_platform
     (sample_request ''https://other.streammy.io/anything'' None)
     = Inl (TypeError ''fetch failed'')
   \<and> fst (export_fetch offline_platform
            (sample_request ''https://other.streammy.io/anything'' None))
     = Inr \<lparr> status = 500,
               body = Some ''Internal Server Error: fetch failed'',
               headers = [(''Content-Type'', ''text/plain'')] \<rparr>
   \<and> \<not> extends_outcome
         (fst (export_fetch offline_platform
                 (sample_request ''https://other.streammy.io/anything'' None)))
         (export_fetch_plain offline_platform
            (sample_request ''https://other.streammy.io/anything'' None))"
  by (simp add: extends_outcome_def export_fetch_outcome export_fetch_plain_def
      handleRequest_def handleRequest_plain_def offline_platform_def sample_platform_def
      sample_request_def error_response_def)

text \<open>
  C7, amended. Whenever the exported \<^verbatim>\<open>fetch\<close> of the plain version fails with an
  error, the one of the version with logging returns the status-500 response built
  from that error and logs the error last. Whenever the plain one returns a response:
  for a hostname other than the target, the one with logging returns the same response
  and logs the request and the elapsed time; for the target hostname, it logs the
  routing decision and returns the response of the plain version with the country and
  continent headers appended (their values normalised) and logs the elapsed time,
  unless the \<^verbatim>\<open>Response\<close> constructor refuses one of the two added values, and
  then it returns the status-500 response built from that refusal and logs the error.
\<close>

theorem logging_version_extends_plain:
  "(\<forall>e. export_fetch_plain env request = Inl e \<longrightarrow>
        fst (export_fetch env request) = Inr (error_response e)
        \<and> last (snd (export_fetch env request))
            = ERROR e (url request) (request_method request))
   \<and> (\<forall>u p. new_URL env (url request) = Inr u \<longrightarrow>
          export_fetch_plain env request = Inr p \<longrightarrow>
          (let d = \<lparr> log_timestamp = Date_toISOString env,
                     log_url = url request,
                     log_hostname = hostname u,
                     log_clientIP = or_unknown (headers_get request ''cf-connecting-ip''),
                     log_userAgent = or_unknown (headers_get request ''user-agent''),
                     log_country = or_unknown (cf_field country request),
                     log_continent = or_unknown (cf_field continent request),
                     log_region = or_unknown (cf_field region request),
                     log_selectedServer = None,
                     log_serverRegion = None \<rparr>;
               t = PERFORMANCE (Date_now_end env - Date_now_start env)
           in if hostname u \<noteq> ''live.streammy.io''
              then export_fetch env request = (Inr p, [NON_TARGET (hostname u) d, t])
              else
                (\<exists>host. determineClosestServer request = Str host
                   \<and> (let d' = d \<lparr> log_selectedServer := Some host,
                                    log_serverRegion :=
                                      Some (takeWhile (\<lambda>c. c \<noteq> CHR ''.'') host) \<rparr>;
                           ds = [(''X-Streammy-Country'',
                                    or_unknown (cf_field country request)),
                                 (''X-Streammy-Continent'',
                                    or_unknown (cf_field continent request))]
                       in case check_headers env ds of
                            None \<Rightarrow>
                              export_fetch env request =
                                (Inr (p \<lparr> headers := headers p
                                          @ map (\<lambda>(n, v). (n, normalize_header_value v)) ds \<rparr>),
                                 [GEO_ROUTING host d', t])
                          | Some e \<Rightarrow>
                              export_fetch env request =
                                (Inr (error_response e),
                                 [GEO_ROUTING host d',
                                  ERROR e (url request) (request_method request)])))))"
proof (intro conjI allI impI)
  fix e
  assume p: "export_fetch_plain env request = Inl e"
  have "fst (handleRequest env request) = Inl e"
  proof (cases "new_URL env (url request)")
    case (Inl x)
    with p show ?thesis
      by (simp add: export_fetch_plain_def handleRequest_def handleRequest_plain_def)
  next
    case (Inr u)
    show ?thesis
    proof (cases "hostname u = ''live.streammy.io''")
      case False
      with Inr p show ?thesis
        by (simp add: export_fetch_plain_def handleRequest_def handleRequest_plain_def)
    next
      case True
      show ?thesis
      proof (cases "determineClosestServer request")
        case Undefined
        with Inr True p show ?thesis
          by (simp add: export_fetch_plain_def handleRequest_def handleRequest_plain_def)
      next
        case (Inherited k)
        with Inr True p show ?thesis
          by (simp add: export_fetch_plain_def handleRequest_def handleRequest_plain_def)
      next
        case (Str host)
        from p handleRequest_redirect(2) [OF Inr True Str]
        have "check_headers env
                [(''Location'', ''https://'' @ host @ pathname u @ search u),
                 (''Cache-Control'', ''no-cache''),
                 (''X-Streammy-Region'', split_first host)] = Some e"
          by (auto simp: export_fetch_plain_def new_Response_def split: option.splits)
        then have "check_headers env
                ([(''Location'', ''https://'' @ host @ pathname u @ search u),
                  (''Cache-Control'', ''no-cache''),
                  (''X-Streammy-Region'', split_first host)]
                 @ [(''X-Streammy-Country'', or_unknown (cf_field country request)),
                    (''X-Streammy-Continent'', or_unknown (cf_field continent request))])
                = Some e"
          by (simp only: check_headers_append option.case)
        with handleRequest_redirect_logged [OF Inr True Str] show ?thesis
          by (simp add: new_Response_def)
      qed
    qed
  qed
  then show "fst (export_fetch env request) = Inr (error_response e)"
    and "last (snd (export_fetch env request))
            = ERROR e (url request) (request_method request)"
    by (cases "handleRequest env request";
        simp add: export_fetch_def catch_response error_response_def)+
next
  fix u p
  assume u: "new_URL env (url request) = Inr u"
    and p: "export_fetch_plain env request = Inr p"
  show "let d = \<lparr> log_timestamp = Date_toISOString env,
                     log_url = url request,
                     log_hostname = hostname u,
                     log_clientIP = or_unknown (headers_get request ''cf-connecting-ip''),
                     log_userAgent = or_unknown (headers_get request ''user-agent''),
                     log_country = or_unknown (cf_field country request),
                     log_continent = or_unknown (cf_field continent request),
                     log_region = or_unknown (cf_field region request),
                     log_selectedServer = None,
                     log_serverRegion = None \<rparr>;
               t = PERFORMANCE (Date_now_end env - Date_now_start env)
           in if hostname u \<noteq> ''live.streammy.io''
              then export_fetch env request = (Inr p, [NON_TARGET (hostname u) d, t])
              else
                (\<exists>host. determineClosestServer request = Str host
                   \<and> (let d' = d \<lparr> log_selectedServer := Some host,
                                    log_serverRegion :=
                                      Some (takeWhile (\<lambda>c. c \<noteq> CHR ''.'') host) \<rparr>;
                           ds = [(''X-Streammy-Country'',
                                    or_unknown (cf_field country request)),
                                 (''X-Streammy-Continent'',
                                    or_unknown (cf_field continent request))]
                       in case check_headers env ds of
                            None \<Rightarrow>
                              export_fetch env request =
                                (Inr (p \<lparr> headers := headers p
                                          @ map (\<lambda>(n, v). (n, normalize_header_value v)) ds \<rparr>),
                                 [GEO_ROUTING host d', t])
                          | Some e \<Rightarrow>
                              export_fetch env request =
                                (Inr (error_response e),
                                 [GEO_ROUTING host d',
                                  ERROR e (url request) (request_method request)])))"
  proof (cases "hostname u = ''live.streammy.io''")
    case False
    from p u False have "global_fetch env request = Inr p"
      by (simp add: export_fetch_plain_def handleRequest_plain_def)
    with handleRequest_passthrough [OF u False] False show ?thesis
      by (simp add: export_fetch_def)
  next
    case True
    from p have "handleRequest_plain env request = Inr p"
      by (simp add: export_fetch_plain_def)
    then have "fst (handleRequest env request) = Inr p \<or> handleRequest_plain env request = Inr p"
      by simp
    then have host: "determineClosestServer request = Str ''eu.streammy.io''"
      by (rule redirect_host [OF u True])
    let ?hs = "[(''Location'', ''https://'' @ ''eu.streammy.io'' @ pathname u @ search u),
                (''Cache-Control'', ''no-cache''),
                (''X-Streammy-Region'', split_first ''eu.streammy.io'')]"
    let ?ds = "[(''X-Streammy-Country'', or_unknown (cf_field country request)),
                (''X-Streammy-Continent'', or_unknown (cf_field continent request))]"
    from p handleRequest_redirect(2) [OF u True host]
    have hs: "check_headers env ?hs = None"
      and pv: "p = \<lparr> status = 302, body = None,
                     headers = map (\<lambda>(n, v). (n, normalize_header_value v)) ?hs \<rparr>"
      by (auto simp: export_fetch_plain_def new_Response_def split: option.splits)
    from hs have app: "check_headers env (?hs @ ?ds) = check_headers env ?ds"
      by (simp only: check_headers_append option.case)
    note l = handleRequest_redirect_logged [OF u True host]
    show ?thesis
    proof (cases "check_headers env ?ds")
      case None
      with app have "new_Response env None 302 (?hs @ ?ds)
          = Inr \<lparr> status = 302, body = None,
                  headers = map (\<lambda>(n, v). (n, normalize_header_value v)) (?hs @ ?ds) \<rparr>"
        by (simp only: new_Response_def option.case)
      with l have "handleRequest env request =
          (Inr (p \<lparr> headers := headers p
                    @ map (\<lambda>(n, v). (n, normalize_header_value v)) ?ds \<rparr>),
           [GEO_ROUTING ''eu.streammy.io''
              \<lparr> log_timestamp = Date_toISOString env,
                log_url = url request,
                log_hostname = hostname u,
                log_clientIP = or_unknown (headers_get request ''cf-connecting-ip''),
                log_userAgent = or_unknown (headers_get request ''user-agent''),
                log_country = or_unknown (cf_field country request),
                log_continent = or_unknown (cf_field continent request),
                log_region = or_unknown (cf_field region request),
                log_selectedServer = Some ''eu.streammy.io'',
                log_serverRegion = Some (split_first ''eu.streammy.io'') \<rparr>])"
        by (simp add: pv)
      with None True host show ?thesis
        by (simp add: export_fetch_def split_first_def)
    next
      case (Some e)
      with app have "new_Response env None 302 (?hs @ ?ds) = Inl e"
        by (simp only: new_Response_def option.case)
      with l have "handleRequest env request =
          (Inl e,
           [GEO_ROUTING ''eu.streammy.io''
              \<lparr> log_timestamp = Date_toISOString env,
                log_url = url request,
                log_hostname = hostname u,
                log_clientIP = or_unknown (headers_get request ''cf-connecting-ip''),
                log_userAgent = or_unknown (headers_get request ''user-agent''),
                log_country = or_unknown (cf_field country request),
                log_continent = or_unknown (cf_field continent request),
                log_region = or_unknown (cf_field region request),
                log_selectedServer = Some ''eu.streammy.io'',
                log_serverRegion = Some (split_first ''eu.streammy.io'') \<rparr>])"
        by simp
      with Some True host show ?thesis
        by (simp add: export_fetch_def split_first_def catch_response error_response_def)
    qed
  qed
qed

theorem logging_version_extends_plain_witness:
  "export_fetch_plain offline_platform
     (sample_request ''https://other.streammy.io/anything'' None)
     = Inl (TypeError ''fetch failed'')
   \<and> fst (export_fetch offline_platform
            (sample_request ''https://other.streammy.io/anything'' None))
     = Inr (error_response (TypeError ''fetch failed''))
   \<and> last (snd (export_fetch offline_platform
                  (sample_request ''https://other.streammy.io/anything'' None)))
     = ERROR (TypeError ''fetch failed'') ''https://other.streammy.io/anything'' ''GET''
   \<and> export_fetch_plain sample_platform
        (sample_request ''https://other.streammy.io/anything'' None)
     = Inr upstream_page
   \<and> export_fetch sample_platform
        (sample_request ''https://other.streammy.io/anything'' None)
     = (Inr upstream_page,
        [NON_TARGET ''other.streammy.io''
           \<lparr> log_timestamp = ''2025-01-01T00:00:00.000Z'',
             log_url = ''https://other.streammy.io/anything'',
             log_hostname = ''other.streammy.io'',
             log_clientIP = ''unknown'',
             log_userAgent = ''unknown'',
             log_country = ''unknown'',
             log_continent = ''unknown'',
             log_region = ''unknown'',
             log_selectedServer = None,
             log_serverRegion = None \<rparr>,
         PERFORMANCE 3])
   \<and> export_fetch_plain sample_platform
        (sample_request ''https://live.streammy.io/stream/abc?token=123''
           (Some (geo (Some ''FR'') (Some ''EU''))))
     = Inr \<lparr> status = 302, body = None,
               headers =
                 [(''Location'', ''https://eu.streammy.io/stream/abc?token=123''),
                  (''Cache-Control'', ''no-cache''),
                  (''X-Streammy-Region'', ''eu'')] \<rparr>
   \<and> export_fetch sample_platform
        (sample_request ''https://live.streammy.io/stream/abc?token=123''
           (Some (geo (Some ''FR'') (Some ''EU''))))
     = (Inr \<lparr> status = 302, body = None,
                headers =
                  [(''Location'', ''https://eu.streammy.io/stream/abc?token=123''),
                   (''Cache-Control'', ''no-cache''),
                   (''X-Streammy-Region'', ''eu''),
                   (''X-Streammy-Country'', ''FR''),
                   (''X-Streammy-Continent'', ''EU'')] \<rparr>,
        [GEO_ROUTING ''eu.streammy.io''
           \<lparr> log_timestamp = ''2025-01-01T00:00:00.000Z'',
             log_url = ''https://live.streammy.io/stream/abc?token=123'',
             log_hostname = ''live.streammy.io'',
             log_clientIP = ''unknown'',
             log_userAgent = ''unknown'',
             log_country = ''FR'',
             log_continent = ''EU'',
             log_region = ''unknown'',
             log_selectedServer = Some ''eu.streammy.io'',
             log_serverRegion = Some ''eu'' \<rparr>,
         PERFORMANCE 3])"
proof -
  let ?q = "sample_request ''https://other.streammy.io/anything'' None"
  let ?r = "sample_request ''https://live.streammy.io/stream/abc?token=123''
              (Some (geo (Some ''FR'') (Some ''EU'')))"
  let ?uq = "\<lparr> hostname = ''other.streammy.io'', pathname = ''/anything'', search = [] \<rparr>"
  let ?ur = "\<lparr> hostname = ''live.streammy.io'', pathname = ''/stream/abc'',
               search = ''?token=123'' \<rparr>"
  let ?p = "\<lparr> status = 302, body = None,
              headers =
                [(''Location'', ''https://eu.streammy.io/stream/abc?token=123''),
                 (''Cache-Control'', ''no-cache''),
                 (''X-Streammy-Region'', ''eu'')] \<rparr>"
  have fields:
    "url ?q = ''https://other.streammy.io/anything''" "request_method ?q = ''GET''"
    "url ?r = ''https://live.streammy.io/stream/abc?token=123''"
    "headers_get ?q = (\<lambda>h. None)" "headers_get ?r = (\<lambda>h. None)"
    "cf_field country ?q = None" "cf_field continent ?q = None" "cf_field region ?q = None"
    "cf_field country ?r = Some ''FR''" "cf_field continent ?r = Some ''EU''"
    "cf_field region ?r = None"
    by (simp_all add: sample_request_def cf_field_def geo_def)
  have env:
    "Date_toISOString sample_platform = ''2025-01-01T00:00:00.000Z''"
    "Date_now_end sample_platform - Date_now_start sample_platform = 3"
    by (simp_all add: sample_platform_def)
  have a: "export_fetch_plain offline_platform ?q = Inl (TypeError ''fetch failed'')"
    by (simp add: export_fetch_plain_def handleRequest_plain_def offline_platform_def
        sample_platform_def sample_request_def)
  have uq: "new_URL sample_platform (url ?q) = Inr ?uq"
    by (simp add: sample_platform_def sample_request_def)
  have b: "export_fetch_plain sample_platform ?q = Inr upstream_page"
    by (simp add: export_fetch_plain_def handleRequest_plain_def sample_platform_def
        sample_request_def)
  have ur: "new_URL sample_platform (url ?r) = Inr ?ur"
    by (simp add: sample_platform_def sample_request_def)
  have d: "determineClosestServer ?r = Str ''eu.streammy.io''"
    by (simp add: determineClosestServer_def sample_request_def geo_def js_and_def js_get_def
        COUNTRY_OVERRIDES_def CONTINENT_TO_REGION_def RTMP_SERVERS_def
        Object_prototype_keys_def)
  have c: "export_fetch_plain sample_platform ?r = Inr ?p"
    unfolding export_fetch_plain_def handleRequest_redirect(2) [OF ur _ d, simplified]
    by (simp add: new_Response_def header_error_def sample_platform_def split_first_def
        normalize_header_value_def HTTP_whitespace_def)
  have k: "header_error sample_platform ''FR'' = None"
    "header_error sample_platform ''EU'' = None"
    by (simp_all add: header_error_def sample_platform_def)
  have n: "normalize_header_value ''FR'' = ''FR''" "normalize_header_value ''EU'' = ''EU''"
    by (simp_all add: normalize_header_value_def HTTP_whitespace_def)
  note t1 = logging_version_extends_plain [of offline_platform ?q]
  note t2 = logging_version_extends_plain [of sample_platform ?q]
  note t3 = logging_version_extends_plain [of sample_platform ?r]
  from t1 a fields
  have e1: "fst (export_fetch offline_platform ?q) = Inr (error_response (TypeError ''fetch failed''))
          \<and> last (snd (export_fetch offline_platform ?q))
              = ERROR (TypeError ''fetch failed'') ''https://other.streammy.io/anything'' ''GET''"
    by simp
  from t2 uq b
  have "let d = \<lparr> log_timestamp = Date_toISOString sample_platform,
                     log_url = url ?q,
                     log_hostname = hostname ?uq,
                     log_clientIP = or_unknown (headers_get ?q ''cf-connecting-ip''),
                     log_userAgent = or_unknown (headers_get ?q ''user-agent''),
                     log_country = or_unknown (cf_field country ?q),
                     log_continent = or_unknown (cf_field continent ?q),
                     log_region = or_unknown (cf_field region ?q),
                     log_selectedServer = None,
                     log_serverRegion = None \<rparr>;
               t = PERFORMANCE (Date_now_end sample_platform - Date_now_start sample_platform)
           in if hostname ?uq \<noteq> ''live.streammy.io''
              then export_fetch sample_platform ?q
                     = (Inr upstream_page, [NON_TARGET (hostname ?uq) d, t])
              else True"
    by (auto simp: Let_def)
  then have e2: "export_fetch sample_platform ?q
     = (Inr upstream_page,
        [NON_TARGET ''other.streammy.io''
           \<lparr> log_timestamp = ''2025-01-01T00:00:00.000Z'',
             log_url = ''https://other.streammy.io/anything'',
             log_hostname = ''other.streammy.io'',
             log_clientIP = ''unknown'',
             log_userAgent = ''unknown'',
             log_country = ''unknown'',
             log_continent = ''unknown'',
             log_region = ''unknown'',
             log_selectedServer = None,
             log_serverRegion = None \<rparr>,
         PERFORMANCE 3])"
    by (simp add: Let_def fields env or_unknown_cases)
  from t3 ur c
  have "\<exists>host. determineClosestServer ?r = Str host
           \<and> (case check_headers sample_platform
                      [(''X-Streammy-Country'', or_unknown (cf_field country ?r)),
                       (''X-Streammy-Continent'', or_unknown (cf_field continent ?r))] of
                 None \<Rightarrow>
                   export_fetch sample_platform ?r =
                     (Inr (?p \<lparr> headers := headers ?p
                               @ map (\<lambda>(n, v). (n, normalize_header_value v))
                                   [(''X-Streammy-Country'', or_unknown (cf_field country ?r)),
                                    (''X-Streammy-Continent'',
                                       or_unknown (cf_field continent ?r))] \<rparr>),
                      [GEO_ROUTING host
                         \<lparr> log_timestamp = Date_toISOString sample_platform,
                           log_url = url ?r,
                           log_hostname = hostname ?ur,
                           log_clientIP = or_unknown (headers_get ?r ''cf-connecting-ip''),
                           log_userAgent = or_unknown (headers_get ?r ''user-agent''),
                           log_country = or_unknown (cf_field country ?r),
                           log_continent = or_unknown (cf_field continent ?r),
                           log_region = or_unknown (cf_field region ?r),
                           log_selectedServer = Some host,
                           log_serverRegion = Some (takeWhile (\<lambda>c. c \<noteq> CHR ''.'') host) \<rparr>,
                       PERFORMANCE (Date_now_end sample_platform
                                      - Date_now_start sample_platform)])
               | Some e \<Rightarrow> True)"
    by (auto simp: Let_def split: option.splits)
  then have e3: "export_fetch sample_platform ?r
     = (Inr \<lparr> status = 302, body = None,
                headers =
                  [(''Location'', ''https://eu.streammy.io/stream/abc?token=123''),
                   (''Cache-Control'', ''no-cache''),
                   (''X-Streammy-Region'', ''eu''),
                   (''X-Streammy-Country'', ''FR''),
                   (''X-Streammy-Continent'', ''EU'')] \<rparr>,
        [GEO_ROUTING ''eu.streammy.io''
           \<lparr> log_timestamp = ''2025-01-01T00:00:00.000Z'',
             log_url = ''https://live.streammy.io/stream/abc?token=123'',
             log_hostname = ''live.streammy.io'',
             log_clientIP = ''unknown'',
             log_userAgent = ''unknown'',
             log_country = ''FR'',
             log_continent = ''EU'',
             log_region = ''unknown'',
             log_selectedServer = Some ''eu.streammy.io'',
             log_serverRegion = Some ''eu'' \<rparr>,
         PERFORMANCE 3])"
    by (simp add: d fields env or_unknown_cases k n)
  from a b c e1 e2 e3 show ?thesis
    by simp
qed

text \<open>
  C8, as stated, fails for the country and continent headers: a country with
  surrounding whitespace is present and detected, but the header carries it without
  that whitespace, and a country that is present but empty gives the header
  \<^verbatim>\<open>unknown\<close>, not the raw value.
\<close>

theorem diagnostic_headers_not_raw:
  "fst (handleRequest sample_platform
          (sample_request ''https://live.streammy.io/stream/abc?token=123''
             (Some (geo (Some '' FR'') (Some ''EU'')))))
     = Inr \<lparr> status = 302, body = None,
               headers =
                 [(''Location'', ''https://eu.streammy.io/stream/abc?token=123''),
                  (''Cache-Control'', ''no-cache''),
                  (''X-Streammy-Region'', ''eu''),
                  (''X-Streammy-Country'', ''FR''),
                  (''X-Streammy-Continent'', ''EU'')] \<rparr>
   \<and> fst (handleRequest sample_platform
            (sample_request ''https://live.streammy.io/stream/abc?token=123''
               (Some (geo (Some []) (Some ''EU'')))))
     = Inr \<lparr> status = 302, body = None,
               headers =
                 [(''Location'', ''https://eu.streammy.io/stream/abc?token=123''),
                  (''Cache-Control'', ''no-cache''),
                  (''X-Streammy-Region'', ''eu''),
                  (''X-Streammy-Country'', ''unknown''),
                  (''X-Streammy-Continent'', ''EU'')] \<rparr>"
proof -
  let ?r1 = "sample_request ''https://live.streammy.io/stream/abc?token=123''
               (Some (geo (Some '' FR'') (Some ''EU'')))"
  let ?r2 = "sample_request ''https://live.streammy.io/stream/abc?token=123''
               (Some (geo (Some []) (Some ''EU'')))"
  let ?u = "\<lparr> hostname = ''live.streammy.io'', pathname = ''/stream/abc'',
              search = ''?token=123'' \<rparr>"
  have u: "new_URL sample_platform (url ?r1) = Inr ?u" "new_URL sample_platform (url ?r2) = Inr ?u"
    by (simp_all add: sample_platform_def sample_request_def)
  have h: "hostname ?u = ''live.streammy.io''"
    by simp
  have d: "determineClosestServer ?r1 = Str ''eu.streammy.io''"
    "determineClosestServer ?r2 = Str ''eu.streammy.io''"
    by (simp_all add: determineClosestServer_def sample_request_def geo_def js_and_def
        js_get_def COUNTRY_OVERRIDES_def CONTINENT_TO_REGION_def RTMP_SERVERS_def
        Object_prototype_keys_def)
  show ?thesis
    unfolding handleRequest_redirect(1) [OF u(1) h d(1)]
      handleRequest_redirect(1) [OF u(2) h d(2)]
    by (simp add: new_Response_def header_error_def sample_platform_def split_first_def
        or_unknown_cases cf_field_def sample_request_def geo_def
        normalize_header_value_def HTTP_whitespace_def)
qed

text \<open>
  C8, amended. On the redirect path of the version with logging (the request is for
  \<^verbatim>\<open>live.streammy.io\<close> and \<^verbatim>\<open>handleRequest\<close> returns a response), the routing
  decision is a hostname string and the region header is the part of that hostname
  before its first dot. The country header is \<^verbatim>\<open>unknown\<close> when the descriptor or
  its country is absent or the country is the empty string, and otherwise the detected
  country with its leading and trailing HTTP whitespace removed, which is the raw code
  whenever the code neither starts nor ends with such whitespace. The continent header
  is determined from the continent in the same way.
\<close>

theorem diagnostic_headers:
  assumes "new_URL env (url request) = Inr u"
    and "hostname u = ''live.streammy.io''"
    and "fst (handleRequest env request) = Inr resp"
  shows "\<exists>host. determineClosestServer request = Str host
           \<and> map_of (headers resp) ''X-Streammy-Region''
               = Some (takeWhile (\<lambda>c. c \<noteq> CHR ''.'') host)
           \<and> map_of (headers resp) ''X-Streammy-Country''
               = Some (normalize_header_value
                         (case cf request of
                            None \<Rightarrow> ''unknown''
                          | Some g \<Rightarrow>
                              (case country g of
                                 None \<Rightarrow> ''unknown''
                               | Some c \<Rightarrow> if c = [] then ''unknown'' else c)))
           \<and> map_of (headers resp) ''X-Streammy-Continent''
               = Some (normalize_header_value
                         (case cf request of
                            None \<Rightarrow> ''unknown''
                          | Some g \<Rightarrow>
                              (case continent g of
                                 None \<Rightarrow> ''unknown''
                               | Some k \<Rightarrow> if k = [] then ''unknown'' else k)))
           \<and> (\<forall>g c. cf request = Some g \<longrightarrow> country g = Some c \<longrightarrow> c \<noteq> [] \<longrightarrow>
                  \<not> HTTP_whitespace (hd c) \<longrightarrow> \<not> HTTP_whitespace (last c) \<longrightarrow>
                  map_of (headers resp) ''X-Streammy-Country'' = Some c)
           \<and> (\<forall>g k. cf request = Some g \<longrightarrow> continent g = Some k \<longrightarrow> k \<noteq> [] \<longrightarrow>
                  \<not> HTTP_whitespace (hd k) \<longrightarrow> \<not> HTTP_whitespace (last k) \<longrightarrow>
                  map_of (headers resp) ''X-Streammy-Continent'' = Some k)
           \<and> (cf request = None \<longrightarrow>
                  map_of (headers resp) ''X-Streammy-Country'' = Some ''unknown''
                  \<and> map_of (headers resp) ''X-Streammy-Continent'' = Some ''unknown'')"
proof -
  have "fst (handleRequest env request) = Inr resp \<or> handleRequest_plain env request = Inr resp"
    using assms(3) by simp
  then have host: "determineClosestServer request = Str ''eu.streammy.io''"
    by (rule redirect_host [OF assms(1,2)])
  have "split_first ''eu.streammy.io'' = ''eu''"
    by (simp add: split_first_def)
  with handleRequest_redirect(1) [OF assms(1,2) host] assms(3)
  have hs: "headers resp =
          [(''Location'', normalize_header_value
                            (''https://eu.streammy.io'' @ pathname u @ search u)),
           (''Cache-Control'', ''no-cache''),
           (''X-Streammy-Region'', ''eu''),
           (''X-Streammy-Country'',
              normalize_header_value (or_unknown (cf_field country request))),
           (''X-Streammy-Continent'',
              normalize_header_value (or_unknown (cf_field continent request)))]"
    by (auto simp: new_Response_def normalize_literals split: option.splits)
  have c: "or_unknown (cf_field country request)
             = (case cf request of
                  None \<Rightarrow> ''unknown''
                | Some g \<Rightarrow>
                    (case country g of
                       None \<Rightarrow> ''unknown''
                     | Some c \<Rightarrow> if c = [] then ''unknown'' else c))"
    by (simp add: or_unknown_cases cf_field_def split: option.splits)
  have k: "or_unknown (cf_field continent request)
             = (case cf request of
                  None \<Rightarrow> ''unknown''
                | Some g \<Rightarrow>
                    (case continent g of
                       None \<Rightarrow> ''unknown''
                     | Some k \<Rightarrow> if k = [] then ''unknown'' else k))"
    by (simp add: or_unknown_cases cf_field_def split: option.splits)
  have region: "map_of (headers resp) ''X-Streammy-Region''
                  = Some (takeWhile (\<lambda>c. c \<noteq> CHR ''.'') ''eu.streammy.io'')"
    by (simp add: hs)
  have country: "map_of (headers resp) ''X-Streammy-Country''
      = Some (normalize_header_value (or_unknown (cf_field country request)))"
    and continent: "map_of (headers resp) ''X-Streammy-Continent''
      = Some (normalize_header_value (or_unknown (cf_field continent request)))"
    by (simp_all add: hs)
  have raw_c: "map_of (headers resp) ''X-Streammy-Country'' = Some c"
    if "cf request = Some g" "country g = Some c" "c \<noteq> []"
       "\<not> HTTP_whitespace (hd c)" "\<not> HTTP_whitespace (last c)" for g c
    using that by (simp add: country c normalize_header_value_id)
  have raw_k: "map_of (headers resp) ''X-Streammy-Continent'' = Some k"
    if "cf request = Some g" "continent g = Some k" "k \<noteq> []"
       "\<not> HTTP_whitespace (hd k)" "\<not> HTTP_whitespace (last k)" for g k
    using that by (simp add: continent k normalize_header_value_id)
  have absent: "map_of (headers resp) ''X-Streammy-Country'' = Some ''unknown''
                  \<and> map_of (headers resp) ''X-Streammy-Continent'' = Some ''unknown''"
    if "cf request = None"
    using that by (simp add: country continent c k normalize_literals)
  show ?thesis
  proof (intro exI [of _ "''eu.streammy.io''"] conjI allI impI)
    show "determineClosestServer request = Str ''eu.streammy.io''"
      by (rule host)
    show "map_of (headers resp) ''X-Streammy-Region''
            = Some (takeWhile (\<lambda>c. c \<noteq> CHR ''.'') ''eu.streammy.io'')"
      by (rule region)
    show "map_of (headers resp) ''X-Streammy-Country''
            = Some (normalize_header_value
                      (case cf request of
                         None \<Rightarrow> ''unknown''
                       | Some g \<Rightarrow>
                           (case country g of
                              None \<Rightarrow> ''unknown''
                            | Some c \<Rightarrow> if c = [] then ''unknown'' else c)))"
      by (rule country [unfolded c])
    show "map_of (headers resp) ''X-Streammy-Continent''
            = Some (normalize_header_value
                      (case cf request of
                         None \<Rightarrow> ''unknown''
                       | Some g \<Rightarrow>
                           (case continent g of
                              None \<Rightarrow> ''unknown''
                            | Some k \<Rightarrow> if k = [] then ''unknown'' else k)))"
      by (rule continent [unfolded k])
  next
    fix g c
    assume "cf request = Some g" "country g = Some c" "c \<noteq> []"
      "\<not> HTTP_whitespace (hd c)" "\<not> HTTP_whitespace (last c)"
    then show "map_of (headers resp) ''X-Streammy-Country'' = Some c"
      by (rule raw_c)
  next
    fix g k
    assume "cf request = Some g" "continent g = Some k" "k \<noteq> []"
      "\<not> HTTP_whitespace (hd k)" "\<not> HTTP_whitespace (last k)"
    then show "map_of (headers resp) ''X-Streammy-Continent'' = Some k"
      by (rule raw_k)
  next
    assume n: "cf request = None"
    from absent [OF n] show "map_of (headers resp) ''X-Streammy-Country'' = Some ''unknown''"
      by simp
    from absent [OF n] show "map_of (headers resp) ''X-Streammy-Continent'' = Some ''unknown''"
      by simp
  qed
qed

theorem diagnostic_headers_witness:
  "new_URL sample_platform
     (url (sample_request ''https://live.streammy.io/stream/abc?token=123''
             (Some (geo (Some ''FR'') None))))
     = Inr \<lparr> hostname = ''live.streammy.io'', pathname = ''/stream/abc'',
               search = ''?token=123'' \<rparr>
   \<and> (\<exists>resp. fst (handleRequest sample_platform
                   (sample_request ''https://live.streammy.io/stream/abc?token=123''
                      (Some (geo (Some ''FR'') None)))) = Inr resp
          \<and> map_of (headers resp) ''X-Streammy-Region'' = Some ''eu''
          \<and> map_of (headers resp) ''X-Streammy-Country'' = Some ''FR''
          \<and> map_of (headers resp) ''X-Streammy-Continent'' = Some ''unknown'')"
proof -
  let ?r = "sample_request ''https://live.streammy.io/stream/abc?token=123''
              (Some (geo (Some ''FR'') None))"
  let ?u = "\<lparr> hostname = ''live.streammy.io'', pathname = ''/stream/abc'',
              search = ''?token=123'' \<rparr>"
  have a: "new_URL sample_platform (url ?r) = Inr ?u"
    by (simp add: sample_platform_def sample_request_def)
  have b: "hostname ?u = ''live.streammy.io''"
    by simp
  have d: "determineClosestServer ?r = Str ''eu.streammy.io''"
    by (simp add: determineClosestServer_def sample_request_def geo_def js_and_def js_get_def
        COUNTRY_OVERRIDES_def RTMP_SERVERS_def Object_prototype_keys_def)
  have "\<exists>resp. fst (handleRequest sample_platform ?r) = Inr resp"
    unfolding handleRequest_redirect(1) [OF a b d]
    by (simp add: new_Response_def header_error_def sample_platform_def split_first_def
        or_unknown_cases cf_field_def sample_request_def geo_def
        normalize_header_value_def HTTP_whitespace_def)
  then obtain resp where c: "fst (handleRequest sample_platform ?r) = Inr resp"
    by blast
  have e: "cf ?r = Some (geo (Some ''FR'') None)"
    "country (geo (Some ''FR'') None) = Some ''FR''"
    "continent (geo (Some ''FR'') None) = None"
    by (simp_all add: sample_request_def geo_def)
  have w: "''FR'' \<noteq> []" "\<not> HTTP_whitespace (hd ''FR'')" "\<not> HTTP_whitespace (last ''FR'')"
    by (simp_all add: HTTP_whitespace_def)
  from diagnostic_headers [OF a b c] d e w
  have "map_of (headers resp) ''X-Streammy-Region'' = Some ''eu''
      \<and> map_of (headers resp) ''X-Streammy-Country'' = Some ''FR''
      \<and> map_of (headers resp) ''X-Streammy-Continent'' = Some ''unknown''"
    by (auto simp: normalize_literals)
  with a c show ?thesis
    by blast
qed

end
